theory Spec2Isabelle
  imports Main
begin

section \<open>Data model (table-api-access-query.ts)\<close>

text \<open>
  \<^verbatim>\<open>API_ACCESS_ROLES = ['anon', 'authenticated']\<close>. The role type is the closed union
  of the two literals; \<open>roleName\<close> gives the string a role is at run time, which is what
  the query mapping compares a grantee with.
\<close>

datatype ApiAccessRole = Anon | Authenticated

definition API_ACCESS_ROLES :: "ApiAccessRole list" where
  "API_ACCESS_ROLES = [Anon, Authenticated]"

fun roleName :: "ApiAccessRole \<Rightarrow> string" where
  "roleName Anon = ''anon''"
| "roleName Authenticated = ''authenticated''"

text \<open>
  \<^verbatim>\<open>ApiPrivilegeType\<close> is \<^verbatim>\<open>TablePrivilegesGrant['privilegeType']\<close>, a union of string
  literals declared outside the files at hand; the multi-selector hands the component
  plain \<^verbatim>\<open>string[]\<close> values cast to it. A privilege type is therefore the string it is
  at run time.
\<close>

type_synonym ApiPrivilegeType = string

definition API_PRIVILEGE_TYPES :: "ApiPrivilegeType list" where
  "API_PRIVILEGE_TYPES = [''SELECT'', ''INSERT'', ''UPDATE'', ''DELETE'']"

record ApiPrivilegesPerRole =
  anon :: "ApiPrivilegeType list"
  authenticated :: "ApiPrivilegeType list"

text \<open>\<^verbatim>\<open>privileges[role]\<close>, and the object spread \<^verbatim>\<open>{...privileges, [role]: values}\<close>.\<close>

fun privilegesOf :: "ApiPrivilegesPerRole \<Rightarrow> ApiAccessRole \<Rightarrow> ApiPrivilegeType list" where
  "privilegesOf p Anon = anon p"
| "privilegesOf p Authenticated = authenticated p"

fun withRole :: "ApiPrivilegesPerRole \<Rightarrow> ApiAccessRole \<Rightarrow> ApiPrivilegeType list \<Rightarrow> ApiPrivilegesPerRole" where
  "withRole p Anon vs = p\<lparr>anon := vs\<rparr>"
| "withRole p Authenticated vs = p\<lparr>authenticated := vs\<rparr>"

text \<open>\<^verbatim>\<open>Object.values(privileges)\<close>: the two sequences, in key order.\<close>

definition objectValues :: "ApiPrivilegesPerRole \<Rightarrow> ApiPrivilegeType list list" where
  "objectValues p = [anon p, authenticated p]"


section \<open>The API access toggle (ApiAccessToggle component)\<close>

text \<open>
  What one render of the component reads: the pending edit \<^verbatim>\<open>tableFields.apiPrivileges\<close>,
  the fetched \<^verbatim>\<open>apiAccessData?.privileges\<close> (both \<open>None\<close> when undefined), the derived
  boolean \<^verbatim>\<open>isSchemaExposed\<close>, the two props \<^verbatim>\<open>isNewRecord\<close> and \<^verbatim>\<open>isDuplicating\<close>, and
  the component's own state \<^verbatim>\<open>savedPrivileges\<close> (\<^verbatim>\<open>useState\<close>, initially undefined).
\<close>

record ToggleState =
  apiPrivileges :: "ApiPrivilegesPerRole option"
  remotePrivileges :: "ApiPrivilegesPerRole option"
  isSchemaExposed :: bool
  isNewRecord :: bool
  isDuplicating :: bool
  savedPrivileges :: "ApiPrivilegesPerRole option"

definition createDefaultRolePrivileges :: ApiPrivilegesPerRole where
  "createDefaultRolePrivileges =
     \<lparr>anon = API_PRIVILEGE_TYPES, authenticated = API_PRIVILEGE_TYPES\<rparr>"

definition emptyPrivileges :: ApiPrivilegesPerRole where
  "emptyPrivileges = \<lparr>anon = [], authenticated = []\<rparr>"

text \<open>\<^verbatim>\<open>tableFields.apiPrivileges ?? apiAccessData?.privileges ?? defaultPrivileges\<close>\<close>

definition derivedPrivileges :: "ToggleState \<Rightarrow> ApiPrivilegesPerRole" where
  "derivedPrivileges st =
     (case apiPrivileges st of
        Some p \<Rightarrow> p
      | None \<Rightarrow>
          (case remotePrivileges st of
             Some r \<Rightarrow> r
           | None \<Rightarrow> createDefaultRolePrivileges))"

definition effectivePrivileges :: "ToggleState \<Rightarrow> ApiPrivilegesPerRole" where
  "effectivePrivileges st =
     (if \<not> isSchemaExposed st \<and> (isNewRecord st \<or> isDuplicating st)
      then emptyPrivileges
      else derivedPrivileges st)"

text \<open>\<^verbatim>\<open>Object.values(effectivePrivileges).some((privs) => privs.length > 0)\<close>\<close>

definition isSwitchOn :: "ToggleState \<Rightarrow> bool" where
  "isSwitchOn st = list_ex (\<lambda>privs. length privs > 0) (objectValues (effectivePrivileges st))"

text \<open>
  The effect \<^verbatim>\<open>if (isSwitchOn) setSavedPrivileges(effectivePrivileges)\<close>, run after a
  render.
\<close>

definition syncSavedPrivileges :: "ToggleState \<Rightarrow> ToggleState" where
  "syncSavedPrivileges st =
     (if isSwitchOn st then st\<lparr>savedPrivileges := Some (effectivePrivileges st)\<rparr> else st)"

text \<open>
  The two handlers. Each returns what it hands to \<^verbatim>\<open>onChange\<close> (\<open>None\<close>: no call) and
  the state it leaves.
\<close>

definition handleMasterToggle ::
  "bool \<Rightarrow> ToggleState \<Rightarrow> ApiPrivilegesPerRole option \<times> ToggleState" where
  "handleMasterToggle checked st =
     (if \<not> isSchemaExposed st then (None, st)
      else if \<not> checked then
        (Some \<lparr>anon = [], authenticated = []\<rparr>,
         st\<lparr>savedPrivileges := Some (effectivePrivileges st)\<rparr>)
      else
        (Some (case savedPrivileges st of
                 Some s \<Rightarrow> s
               | None \<Rightarrow> createDefaultRolePrivileges),
         st))"

definition handlePrivilegesChange ::
  "ApiAccessRole \<Rightarrow> string list \<Rightarrow> ToggleState \<Rightarrow> ApiPrivilegesPerRole option \<times> ToggleState" where
  "handlePrivilegesChange role vs st =
     (if \<not> isSchemaExposed st then (None, st)
      else (Some (withRole (effectivePrivileges st) role vs), st))"

text \<open>The derived booleans of the render.\<close>

definition hasAnyPrivileges :: "ApiPrivilegesPerRole \<Rightarrow> bool" where
  "hasAnyPrivileges e = list_ex (\<lambda>privileges. length privileges \<noteq> 0) (objectValues e)"

definition totalAvailablePrivileges :: nat where
  "totalAvailablePrivileges = length API_ACCESS_ROLES * length API_PRIVILEGE_TYPES"

definition totalSelectedPrivileges :: "ApiPrivilegesPerRole \<Rightarrow> nat" where
  "totalSelectedPrivileges e =
     foldl (\<lambda>acc privileges. acc + length privileges) 0 (objectValues e)"

definition hasPartialPrivileges :: "ApiPrivilegesPerRole \<Rightarrow> bool" where
  "hasPartialPrivileges e =
     (totalSelectedPrivileges e > 0 \<and> totalSelectedPrivileges e < totalAvailablePrivileges)"

text \<open>
  The spec's words for the two extremes of a privilege set: fully empty (no role holds
  anything) and fully saturated (every role holds every privilege type); and for a set
  whose sequences have no duplicates and hold only the fixed privilege types.
\<close>

definition specFullyEmpty :: "ApiPrivilegesPerRole \<Rightarrow> bool" where
  "specFullyEmpty e = list_all (\<lambda>role. privilegesOf e role = []) API_ACCESS_ROLES"

definition specFullySaturated :: "ApiPrivilegesPerRole \<Rightarrow> bool" where
  "specFullySaturated e =
     list_all (\<lambda>role. list_all (\<lambda>k. List.member (privilegesOf e role) k) API_PRIVILEGE_TYPES)
       API_ACCESS_ROLES"

definition specWellFormed :: "ApiPrivilegesPerRole \<Rightarrow> bool" where
  "specWellFormed e =
     list_all (\<lambda>role. distinct (privilegesOf e role)
                      \<and> list_all (\<lambda>k. List.member API_PRIVILEGE_TYPES k) (privilegesOf e role))
       API_ACCESS_ROLES"


section \<open>The component over time\<close>


definition mount ::
  "ApiPrivilegesPerRole option \<Rightarrow> ApiPrivilegesPerRole option \<Rightarrow> bool \<Rightarrow> bool \<Rightarrow> bool \<Rightarrow> ToggleState" where
  "mount pending remote exposed new dup =
     syncSavedPrivileges
       \<lparr>apiPrivileges = pending, remotePrivileges = remote, isSchemaExposed = exposed,
        isNewRecord = new, isDuplicating = dup, savedPrivileges = None\<rparr>"




text \<open>
  Modelled from the spec: the embedding editor (not among the files at hand) receives
  what a handler emits through \<^verbatim>\<open>onChange\<close> and stores it as the pending edit
  \<^verbatim>\<open>tableFields.apiPrivileges\<close> of the next render.
\<close>

definition commitEdit :: "ApiPrivilegesPerRole option \<Rightarrow> ToggleState \<Rightarrow> ToggleState" where
  "commitEdit emitted st =
     (case emitted of None \<Rightarrow> st | Some p \<Rightarrow> st\<lparr>apiPrivileges := Some p\<rparr>)"

text \<open>
  The operation \<^verbatim>\<open>setMasterEnabled(checked)\<close> as one whole interaction: the handler, the
  pending edit stored, the re-render and its effect.
\<close>

definition setMasterEnabled ::
  "bool \<Rightarrow> ToggleState \<Rightarrow> ApiPrivilegesPerRole option \<times> ToggleState" where
  "setMasterEnabled checked st =
     (case handleMasterToggle checked st of
        (emitted, st') \<Rightarrow> (emitted, syncSavedPrivileges (commitEdit emitted st')))"


section \<open>The query mapping (table-api-access-query.ts)\<close>

text \<open>
  The fetched payload \<^verbatim>\<open>TablePrivilegesData\<close>: one entry per relation, each with its
  grants. Only the fields the mapping reads are kept; \<open>table_privileges\<close> is the
  entry's field \<^verbatim>\<open>privileges\<close>. A relation id is a whole number.
\<close>

record TablePrivilege =
  grantee :: string
  privilege_type :: string

record TablePrivilegesEntry =
  relation_id :: int
  schema :: string
  name :: string
  table_privileges :: "TablePrivilege list"

record TableApiAccessData =
  hasApiAccess :: bool
  privileges :: ApiPrivilegesPerRole

text \<open>The truthiness of \<^verbatim>\<open>relationId?: number\<close>: defined and not zero.\<close>

fun truthyNumber :: "int option \<Rightarrow> bool" where
  "truthyNumber None = False"
| "truthyNumber (Some n) = (n \<noteq> 0)"

definition matchesTarget ::
  "int option \<Rightarrow> string option \<Rightarrow> string option \<Rightarrow> TablePrivilegesEntry \<Rightarrow> bool" where
  "matchesTarget rid sch tableName entry =
     (if truthyNumber rid then Some (relation_id entry) = rid
      else Some (schema entry) = sch \<and> Some (name entry) = tableName)"

definition rolePrivilegesOf :: "TablePrivilege list \<Rightarrow> ApiAccessRole \<Rightarrow> ApiPrivilegeType list" where
  "rolePrivilegesOf allPrivileges role =
     filter (\<lambda>p. List.member API_PRIVILEGE_TYPES p)
       (map privilege_type
          (filter (\<lambda>p. grantee p = roleName role) allPrivileges))"

text \<open>\<^verbatim>\<open>(data ?? []).find(...)\<close>, then \<^verbatim>\<open>target?.privileges ?? []\<close>.\<close>

definition targetPrivileges ::
  "TablePrivilegesEntry list option \<Rightarrow> int option \<Rightarrow> string option \<Rightarrow> string option
     \<Rightarrow> TablePrivilege list" where
  "targetPrivileges data rid sch tableName =
     (let target = find (matchesTarget rid sch tableName)
                     (case data of None \<Rightarrow> [] | Some d \<Rightarrow> d)
      in case target of None \<Rightarrow> [] | Some t \<Rightarrow> table_privileges t)"

definition mapPrivilegesToApiAccess ::
  "TablePrivilegesEntry list option \<Rightarrow> int option \<Rightarrow> string option \<Rightarrow> string option
     \<Rightarrow> TableApiAccessData" where
  "mapPrivilegesToApiAccess data rid sch tableName =
     (let allPrivileges = targetPrivileges data rid sch tableName;
          privilegesPerRole =
            foldl (\<lambda>acc role. withRole acc role (rolePrivilegesOf allPrivileges role))
              \<lparr>anon = [], authenticated = []\<rparr> API_ACCESS_ROLES
      in \<lparr>hasApiAccess =
            (length (anon privilegesPerRole) > 0 \<or> length (authenticated privilegesPerRole) > 0),
          privileges = privilegesPerRole\<rparr>)"


section \<open>The privilege-update mutation (table-api-access-mutation.ts)\<close>

text \<open>
  The grant objects handed to the SQL generator; \<open>granteeRole\<close> is the field
  \<^verbatim>\<open>grantee\<close>, which here always holds a role.
\<close>

record TablePrivilegesGrant =
  granteeRole :: ApiAccessRole
  privilegeType :: ApiPrivilegeType
  relationId :: int

datatype PgMetaCall =
    RevokeCall "TablePrivilegesGrant list"
  | GrantCall "TablePrivilegesGrant list"

text \<open>\<^verbatim>\<open>API_PRIVILEGE_TYPES.filter((p) => !rolePrivileges.includes(p))\<close>\<close>

definition privilegesToRevoke :: "ApiPrivilegeType list \<Rightarrow> ApiPrivilegeType list" where
  "privilegesToRevoke rolePrivileges =
     filter (\<lambda>p. \<not> List.member rolePrivileges p) API_PRIVILEGE_TYPES"

definition grantsFor :: "ApiAccessRole \<Rightarrow> int \<Rightarrow> ApiPrivilegeType list \<Rightarrow> TablePrivilegesGrant list" where
  "grantsFor role rid ps =
     map (\<lambda>p. \<lparr>granteeRole = role, privilegeType = p, relationId = rid\<rparr>) ps"

text \<open>
  The calls one round of the loop makes to the generator: \<^verbatim>\<open>revoke\<close> when there is
  something to revoke, then \<^verbatim>\<open>grant\<close> when there is something to grant.
\<close>

definition roleCalls :: "ApiPrivilegesPerRole \<Rightarrow> int \<Rightarrow> ApiAccessRole \<Rightarrow> PgMetaCall list" where
  "roleCalls privs rid role =
     (let rolePrivileges = privilegesOf privs role;
          privilegesToGrant = rolePrivileges;
          toRevoke = privilegesToRevoke rolePrivileges
      in (if length toRevoke > 0 then [RevokeCall (grantsFor role rid toRevoke)] else [])
         @ (if length privilegesToGrant > 0
            then [GrantCall (grantsFor role rid privilegesToGrant)] else []))"

text \<open>
  \<^verbatim>\<open>String.prototype.trim\<close> on the generated SQL. A character of the text is a code
  unit below 256; the white space and line terminators of \<^verbatim>\<open>trim\<close> in that range are
  tab, line feed, vertical tab, form feed, carriage return, space and no-break space
  (U+00A0). Its other white-space code points lie above U+00FF and do not occur in a
  text of this type.
\<close>

definition isWhiteSpace :: "char \<Rightarrow> bool" where
  "isWhiteSpace c =
     List.member [CHR 0x09, CHR 0x0A, CHR 0x0B, CHR 0x0C, CHR 0x0D, CHR 0x20, CHR 0xA0] c"

definition trim :: "string \<Rightarrow> string" where
  "trim s = rev (dropWhile isWhiteSpace (rev (dropWhile isWhiteSpace s)))"

text \<open>
  The generator \<^verbatim>\<open>pgMeta.tablePrivileges\<close> is an external library: \<open>revokeSql\<close> and
  \<open>grantSql\<close> stand for \<^verbatim>\<open>revoke(grants).sql\<close> and \<^verbatim>\<open>grant(grants).sql\<close>. A statement
  is pushed when its trimmed text is not empty.
\<close>

fun callSql ::
  "(TablePrivilegesGrant list \<Rightarrow> string) \<Rightarrow> (TablePrivilegesGrant list \<Rightarrow> string)
     \<Rightarrow> PgMetaCall \<Rightarrow> string" where
  "callSql revokeSql grantSql (RevokeCall gs) = trim (revokeSql gs)"
| "callSql revokeSql grantSql (GrantCall gs) = trim (grantSql gs)"

definition roleStatements ::
  "(TablePrivilegesGrant list \<Rightarrow> string) \<Rightarrow> (TablePrivilegesGrant list \<Rightarrow> string)
     \<Rightarrow> ApiPrivilegesPerRole \<Rightarrow> int \<Rightarrow> ApiAccessRole \<Rightarrow> string list" where
  "roleStatements revokeSql grantSql privs rid role =
     filter (\<lambda>sql. sql \<noteq> []) (map (callSql revokeSql grantSql) (roleCalls privs rid role))"

definition pgMetaCalls :: "ApiPrivilegesPerRole \<Rightarrow> int \<Rightarrow> PgMetaCall list" where
  "pgMetaCalls privs rid =
     foldl (\<lambda>calls role. calls @ roleCalls privs rid role) [] API_ACCESS_ROLES"

definition sqlStatements ::
  "(TablePrivilegesGrant list \<Rightarrow> string) \<Rightarrow> (TablePrivilegesGrant list \<Rightarrow> string)
     \<Rightarrow> ApiPrivilegesPerRole \<Rightarrow> int \<Rightarrow> string list" where
  "sqlStatements revokeSql grantSql privs rid =
     foldl (\<lambda>stmts role. stmts @ roleStatements revokeSql grantSql privs rid role) []
       API_ACCESS_ROLES"

text \<open>\<^verbatim>\<open>sqlStatements.join('\n')\<close>\<close>

fun joinLines :: "string list \<Rightarrow> string" where
  "joinLines [] = []"
| "joinLines [s] = s"
| "joinLines (s # t # ss) = s @ [CHR 0x0A] @ joinLines (t # ss)"

text \<open>
  The mutation returns \<^verbatim>\<open>null\<close> without running anything when there is no statement
  (\<open>None\<close>); otherwise it runs the joined SQL, which is the value given here.
\<close>

definition updateTableApiAccessPrivileges ::
  "(TablePrivilegesGrant list \<Rightarrow> string) \<Rightarrow> (TablePrivilegesGrant list \<Rightarrow> string)
     \<Rightarrow> ApiPrivilegesPerRole \<Rightarrow> int \<Rightarrow> string option" where
  "updateTableApiAccessPrivileges revokeSql grantSql privs rid =
     (let stmts = sqlStatements revokeSql grantSql privs rid
      in if length stmts = 0 then None else Some (joinLines stmts))"


section \<open>The realtime experiment (useRealtimeExperiment.ts)\<close>

datatype RealtimeButtonVariant = CONTROL | HIDE_BUTTON | TRIGGERS

text \<open>
  What the feature-flag hook hands back for \<^verbatim>\<open>usePHFlag<RealtimeButtonVariant>\<close>:
  undefined while the flags are not loaded, false when the flag is off, or a variant.
  The variants are non-empty strings, hence truthy.
\<close>

datatype PHFlag = FlagUndefined | FlagFalse | FlagValue RealtimeButtonVariant

fun flagTruthy :: "PHFlag \<Rightarrow> bool" where
  "flagTruthy (FlagValue v) = True"
| "flagTruthy _ = False"

text \<open>\<open>isPlatform\<close> is the constant \<^verbatim>\<open>IS_PLATFORM\<close> of \<^verbatim>\<open>lib/constants\<close>.\<close>

definition activeVariant :: "bool \<Rightarrow> bool \<Rightarrow> PHFlag \<Rightarrow> RealtimeButtonVariant option" where
  "activeVariant isPlatform isTable realtimeButtonVariant =
     (if isPlatform \<and> isTable \<and> flagTruthy realtimeButtonVariant
         \<and> realtimeButtonVariant \<noteq> FlagValue CONTROL
      then (case realtimeButtonVariant of FlagValue v \<Rightarrow> Some v | _ \<Rightarrow> None)
      else None)"


section \<open>Properties of the toggle\<close>

lemma hasAny_iff: "hasAnyPrivileges e = (anon e \<noteq> [] \<or> authenticated e \<noteq> [])"
  by (simp add: hasAnyPrivileges_def objectValues_def)

lemma isSwitchOn_iff: "isSwitchOn st = hasAnyPrivileges (effectivePrivileges st)"
  by (simp add: isSwitchOn_def hasAnyPrivileges_def objectValues_def)

lemma effectivePrivileges_saved [simp]:
  "effectivePrivileges (st\<lparr>savedPrivileges := x\<rparr>) = effectivePrivileges st"
  by (simp add: effectivePrivileges_def derivedPrivileges_def split: option.splits)

lemma isSwitchOn_saved [simp]:
  "isSwitchOn (st\<lparr>savedPrivileges := x\<rparr>) = isSwitchOn st"
  by (simp add: isSwitchOn_def)

lemma effectivePrivileges_pending:
  "isSchemaExposed st \<Longrightarrow> effectivePrivileges (st\<lparr>apiPrivileges := Some p\<rparr>) = p"
  by (simp add: effectivePrivileges_def derivedPrivileges_def)

lemma handleMasterToggle_off_then_sync:
  assumes "isSchemaExposed st"
  shows "savedPrivileges (syncSavedPrivileges (commitEdit (fst (handleMasterToggle False st))
            (snd (handleMasterToggle False st)))) = Some (effectivePrivileges st)"
    and "isSchemaExposed (syncSavedPrivileges (commitEdit (fst (handleMasterToggle False st))
            (snd (handleMasterToggle False st))))"
  using assms
  by (simp_all add: handleMasterToggle_def commitEdit_def syncSavedPrivileges_def
      isSwitchOn_iff hasAny_iff effectivePrivileges_pending)

lemma setMasterEnabled_eq:
  "setMasterEnabled checked st =
     (fst (handleMasterToggle checked st),
      syncSavedPrivileges (commitEdit (fst (handleMasterToggle checked st))
         (snd (handleMasterToggle checked st))))"
  by (simp add: setMasterEnabled_def split: prod.splits)

text \<open>
  Claim C1. The effective privilege set maps every role to the empty sequence when the
  schema is not exposed and the table is new or being duplicated; otherwise it is the
  pending edit if there is one, else the fetched value if there is one, else the default
  with all four privilege types for both roles.
\<close>

theorem effectivePrivileges_precedence:
  "effectivePrivileges st =
     (if \<not> isSchemaExposed st \<and> (isNewRecord st \<or> isDuplicating st)
      then \<lparr>anon = [], authenticated = []\<rparr>
      else (case apiPrivileges st of
              Some pendingEdit \<Rightarrow> pendingEdit
            | None \<Rightarrow>
                (case remotePrivileges st of
                   Some remoteValue \<Rightarrow> remoteValue
                 | None \<Rightarrow>
                     \<lparr>anon = [''SELECT'', ''INSERT'', ''UPDATE'', ''DELETE''],
                      authenticated = [''SELECT'', ''INSERT'', ''UPDATE'', ''DELETE'']\<rparr>)))
   \<and> (\<not> isSchemaExposed st \<and> (isNewRecord st \<or> isDuplicating st)
        \<longrightarrow> (\<forall>role. privilegesOf (effectivePrivileges st) role = []))"
proof -
  have e: "\<And>role. privilegesOf emptyPrivileges role = []"
  proof -
    fix role show "privilegesOf emptyPrivileges role = []"
      by (cases role) (simp_all add: emptyPrivileges_def)
  qed
  show ?thesis
    by (simp add: effectivePrivileges_def derivedPrivileges_def e
        createDefaultRolePrivileges_def API_PRIVILEGE_TYPES_def split: option.splits)
      (simp add: emptyPrivileges_def)
qed

theorem effectivePrivileges_precedence_witness:
  "effectivePrivileges
     \<lparr>apiPrivileges = None,
      remotePrivileges = Some \<lparr>anon = [''SELECT''], authenticated = []\<rparr>,
      isSchemaExposed = False, isNewRecord = True, isDuplicating = False,
      savedPrivileges = None\<rparr> = \<lparr>anon = [], authenticated = []\<rparr>
   \<and> effectivePrivileges
     \<lparr>apiPrivileges = None,
      remotePrivileges = Some \<lparr>anon = [''SELECT''], authenticated = []\<rparr>,
      isSchemaExposed = True, isNewRecord = True, isDuplicating = False,
      savedPrivileges = None\<rparr> = \<lparr>anon = [''SELECT''], authenticated = []\<rparr>"
  using effectivePrivileges_precedence
    [of "\<lparr>apiPrivileges = None,
      remotePrivileges = Some \<lparr>anon = [''SELECT''], authenticated = []\<rparr>,
      isSchemaExposed = False, isNewRecord = True, isDuplicating = False,
      savedPrivileges = None\<rparr>"]
    effectivePrivileges_precedence
    [of "\<lparr>apiPrivileges = None,
      remotePrivileges = Some \<lparr>anon = [''SELECT''], authenticated = []\<rparr>,
      isSchemaExposed = True, isNewRecord = True, isDuplicating = False,
      savedPrivileges = None\<rparr>"]
  by simp

text \<open>
  Claim C6. With the schema exposed, switching off stores the current effective set as
  the saved snapshot and emits the set that is empty for every role; switching on emits
  the saved snapshot if there is one, else the default with all privileges, and leaves
  the state as it is. With the schema not exposed the handler emits nothing and changes
  nothing.
\<close>

theorem handleMasterToggle_cases:
  "(isSchemaExposed st \<longrightarrow>
      handleMasterToggle False st =
        (Some \<lparr>anon = [], authenticated = []\<rparr>,
         st\<lparr>savedPrivileges := Some (effectivePrivileges st)\<rparr>))
   \<and> (isSchemaExposed st \<longrightarrow>
      handleMasterToggle True st =
        (Some (case savedPrivileges st of
                 Some snapshot \<Rightarrow> snapshot
               | None \<Rightarrow>
                   \<lparr>anon = [''SELECT'', ''INSERT'', ''UPDATE'', ''DELETE''],
                    authenticated = [''SELECT'', ''INSERT'', ''UPDATE'', ''DELETE'']\<rparr>),
         st))
   \<and> (\<not> isSchemaExposed st \<longrightarrow> handleMasterToggle checked st = (None, st))"
  by (simp add: handleMasterToggle_def createDefaultRolePrivileges_def API_PRIVILEGE_TYPES_def
      split: option.splits)

theorem handleMasterToggle_cases_witness:
  "handleMasterToggle False
     \<lparr>apiPrivileges = None,
      remotePrivileges = Some \<lparr>anon = [''SELECT''], authenticated = []\<rparr>,
      isSchemaExposed = True, isNewRecord = False, isDuplicating = False,
      savedPrivileges = None\<rparr>
   = (Some \<lparr>anon = [], authenticated = []\<rparr>,
      \<lparr>apiPrivileges = None,
       remotePrivileges = Some \<lparr>anon = [''SELECT''], authenticated = []\<rparr>,
       isSchemaExposed = True, isNewRecord = False, isDuplicating = False,
       savedPrivileges = Some \<lparr>anon = [''SELECT''], authenticated = []\<rparr>\<rparr>)
   \<and> fst (handleMasterToggle True
     \<lparr>apiPrivileges = None,
      remotePrivileges = Some \<lparr>anon = [''SELECT''], authenticated = []\<rparr>,
      isSchemaExposed = True, isNewRecord = False, isDuplicating = False,
      savedPrivileges = None\<rparr>)
   = Some \<lparr>anon = [''SELECT'', ''INSERT'', ''UPDATE'', ''DELETE''],
           authenticated = [''SELECT'', ''INSERT'', ''UPDATE'', ''DELETE'']\<rparr>
   \<and> fst (handleMasterToggle True
     \<lparr>apiPrivileges = None,
      remotePrivileges = None,
      isSchemaExposed = False, isNewRecord = False, isDuplicating = False,
      savedPrivileges = Some \<lparr>anon = [''SELECT''], authenticated = []\<rparr>\<rparr>)
   = None"
  using handleMasterToggle_cases
    [of "\<lparr>apiPrivileges = None,
      remotePrivileges = Some \<lparr>anon = [''SELECT''], authenticated = []\<rparr>,
      isSchemaExposed = True, isNewRecord = False, isDuplicating = False,
      savedPrivileges = None\<rparr>" True]
    handleMasterToggle_cases
    [of "\<lparr>apiPrivileges = None,
      remotePrivileges = None,
      isSchemaExposed = False, isNewRecord = False, isDuplicating = False,
      savedPrivileges = Some \<lparr>anon = [''SELECT''], authenticated = []\<rparr>\<rparr>" True]
  by (simp add: effectivePrivileges_def derivedPrivileges_def)

text \<open>
  Claim C7. With the schema exposed, a change of one role's selection emits the current
  effective set with that role's sequence replaced by the new selection and the other
  role's sequence as it was, and leaves the state as it is; with the schema not exposed
  it emits nothing and changes nothing.
\<close>

theorem handlePrivilegesChange_frame:
  "(isSchemaExposed st \<longrightarrow>
      (\<exists>e. handlePrivilegesChange r ks st = (Some e, st)
           \<and> privilegesOf e r = ks
           \<and> (\<forall>r'. r' \<noteq> r \<longrightarrow> privilegesOf e r' = privilegesOf (effectivePrivileges st) r')))
   \<and> (\<not> isSchemaExposed st \<longrightarrow> handlePrivilegesChange r ks st = (None, st))"
proof -
  have own: "privilegesOf (withRole p r ks) r = ks" for p
    by (cases r) simp_all
  have other: "r' \<noteq> r \<Longrightarrow> privilegesOf (withRole p r ks) r' = privilegesOf p r'" for p r'
    by (cases r; cases r') simp_all
  show ?thesis
    by (simp add: handlePrivilegesChange_def own other)
qed

theorem handlePrivilegesChange_frame_witness:
  "handlePrivilegesChange Anon [''UPDATE'']
     \<lparr>apiPrivileges = None,
      remotePrivileges = Some \<lparr>anon = [''SELECT''], authenticated = [''INSERT'']\<rparr>,
      isSchemaExposed = True, isNewRecord = False, isDuplicating = False,
      savedPrivileges = None\<rparr>
   = (Some \<lparr>anon = [''UPDATE''], authenticated = [''INSERT'']\<rparr>,
      \<lparr>apiPrivileges = None,
       remotePrivileges = Some \<lparr>anon = [''SELECT''], authenticated = [''INSERT'']\<rparr>,
       isSchemaExposed = True, isNewRecord = False, isDuplicating = False,
       savedPrivileges = None\<rparr>)
   \<and> fst (handlePrivilegesChange Anon [''UPDATE'']
     \<lparr>apiPrivileges = None,
      remotePrivileges = Some \<lparr>anon = [''SELECT''], authenticated = [''INSERT'']\<rparr>,
      isSchemaExposed = False, isNewRecord = False, isDuplicating = False,
      savedPrivileges = None\<rparr>) = None"
proof -
  let ?st = "\<lparr>apiPrivileges = None,
      remotePrivileges = Some \<lparr>anon = [''SELECT''], authenticated = [''INSERT'']\<rparr>,
      isSchemaExposed = True, isNewRecord = False, isDuplicating = False,
      savedPrivileges = None\<rparr>"
  let ?off = "\<lparr>apiPrivileges = None,
      remotePrivileges = Some \<lparr>anon = [''SELECT''], authenticated = [''INSERT'']\<rparr>,
      isSchemaExposed = False, isNewRecord = False, isDuplicating = False,
      savedPrivileges = None\<rparr>"
  have eff: "effectivePrivileges ?st = \<lparr>anon = [''SELECT''], authenticated = [''INSERT'']\<rparr>"
    by (simp add: effectivePrivileges_def derivedPrivileges_def)
  from handlePrivilegesChange_frame [of ?st Anon "[''UPDATE'']"]
  obtain e where e: "handlePrivilegesChange Anon [''UPDATE''] ?st = (Some e, ?st)"
    "privilegesOf e Anon = [''UPDATE'']"
    "\<forall>r'. r' \<noteq> Anon \<longrightarrow> privilegesOf e r' = privilegesOf (effectivePrivileges ?st) r'"
    by auto
  from e(3) have "privilegesOf e Authenticated
      = privilegesOf (effectivePrivileges ?st) Authenticated"
    by blast
  then have "privilegesOf e Authenticated = [''INSERT'']"
    by (simp add: eff)
  with e(2) have "e = \<lparr>anon = [''UPDATE''], authenticated = [''INSERT'']\<rparr>"
    by (cases e) simp
  with e(1) have one: "handlePrivilegesChange Anon [''UPDATE''] ?st
      = (Some \<lparr>anon = [''UPDATE''], authenticated = [''INSERT'']\<rparr>, ?st)"
    by simp
  from handlePrivilegesChange_frame [of ?off Anon "[''UPDATE'']"]
  have two: "fst (handlePrivilegesChange Anon [''UPDATE''] ?off) = None"
    by simp
  from one two show ?thesis by simp
qed

text \<open>
  Claim C2. With the schema exposed, switching off and then on again, each followed by
  the pending edit being stored and the re-render, emits the effective set that held
  before switching off, and that set is effective again afterwards. The same value is
  emitted when the editor does not store the pending edit in between.
\<close>

theorem toggle_off_on_restores:
  assumes "isSchemaExposed st"
  shows "fst (setMasterEnabled True (snd (setMasterEnabled False st)))
           = Some (effectivePrivileges st)
       \<and> effectivePrivileges (snd (setMasterEnabled True (snd (setMasterEnabled False st))))
           = effectivePrivileges st
       \<and> fst (handleMasterToggle True (syncSavedPrivileges (snd (handleMasterToggle False st))))
           = Some (effectivePrivileges st)"
proof -
  let ?mid = "snd (setMasterEnabled False st)"
  have mid: "?mid = syncSavedPrivileges (commitEdit (fst (handleMasterToggle False st))
            (snd (handleMasterToggle False st)))"
    by (simp add: setMasterEnabled_eq)
  have saved: "savedPrivileges ?mid = Some (effectivePrivileges st)"
    and exposed: "isSchemaExposed ?mid"
    using handleMasterToggle_off_then_sync [OF assms] by (simp_all add: mid)
  have emit: "handleMasterToggle True ?mid = (Some (effectivePrivileges st), ?mid)"
    using saved exposed by (simp add: handleMasterToggle_def)
  have one: "fst (setMasterEnabled True ?mid) = Some (effectivePrivileges st)"
    by (subst setMasterEnabled_eq) (simp add: emit)
  have after: "snd (setMasterEnabled True ?mid)
      = syncSavedPrivileges (?mid\<lparr>apiPrivileges := Some (effectivePrivileges st)\<rparr>)"
    by (subst setMasterEnabled_eq) (simp add: emit commitEdit_def)
  have two: "effectivePrivileges (snd (setMasterEnabled True ?mid)) = effectivePrivileges st"
    using exposed
    by (simp add: after syncSavedPrivileges_def effectivePrivileges_pending)
  have three: "fst (handleMasterToggle True (syncSavedPrivileges (snd (handleMasterToggle False st))))
           = Some (effectivePrivileges st)"
    using assms
    by (simp add: handleMasterToggle_def syncSavedPrivileges_def)
  from one two three show ?thesis by simp
qed

theorem toggle_off_on_restores_witness:
  "fst (setMasterEnabled True (snd (setMasterEnabled False
     \<lparr>apiPrivileges = None,
      remotePrivileges = Some \<lparr>anon = [''SELECT''], authenticated = []\<rparr>,
      isSchemaExposed = True, isNewRecord = False, isDuplicating = False,
      savedPrivileges = None\<rparr>)))
   = Some \<lparr>anon = [''SELECT''], authenticated = []\<rparr>
   \<and> effectivePrivileges (snd (setMasterEnabled True (snd (setMasterEnabled False
     \<lparr>apiPrivileges = None,
      remotePrivileges = Some \<lparr>anon = [''SELECT''], authenticated = []\<rparr>,
      isSchemaExposed = True, isNewRecord = False, isDuplicating = False,
      savedPrivileges = None\<rparr>))))
   = \<lparr>anon = [''SELECT''], authenticated = []\<rparr>"
proof -
  let ?st = "\<lparr>apiPrivileges = None,
      remotePrivileges = Some \<lparr>anon = [''SELECT''], authenticated = []\<rparr>,
      isSchemaExposed = True, isNewRecord = False, isDuplicating = False,
      savedPrivileges = None\<rparr>"
  have exposed: "isSchemaExposed ?st" by simp
  have eff: "effectivePrivileges ?st = \<lparr>anon = [''SELECT''], authenticated = []\<rparr>"
    by (simp add: effectivePrivileges_def derivedPrivileges_def)
  from toggle_off_on_restores [OF exposed] show ?thesis
    by (simp add: eff)
qed









lemma sync_props [simp]:
  "effectivePrivileges (syncSavedPrivileges st) = effectivePrivileges st"
  "isSwitchOn (syncSavedPrivileges st) = isSwitchOn st"
  by (simp_all add: syncSavedPrivileges_def)

lemma click_writes:
  "savedPrivileges (snd (handleMasterToggle (\<not> isSwitchOn st) st)) \<noteq> savedPrivileges st \<Longrightarrow>
     isSwitchOn st
     \<and> savedPrivileges (snd (handleMasterToggle (\<not> isSwitchOn st) st))
         = Some (effectivePrivileges st)"
  by (simp add: handleMasterToggle_def split: if_splits)

lemma click_props [simp]:
  "effectivePrivileges (snd (handleMasterToggle c st)) = effectivePrivileges st"
  "isSwitchOn (snd (handleMasterToggle c st)) = isSwitchOn st"
  by (simp_all add: handleMasterToggle_def)

lemma select_state [simp]: "snd (handlePrivilegesChange role vs st) = st"
  by (simp add: handlePrivilegesChange_def)





lemma totalSelected_eq: "totalSelectedPrivileges e = length (anon e) + length (authenticated e)"
  by (simp add: totalSelectedPrivileges_def objectValues_def)

lemma totalAvailable_eq: "totalAvailablePrivileges = 8"
  by (simp add: totalAvailablePrivileges_def API_ACCESS_ROLES_def API_PRIVILEGE_TYPES_def)

lemma fixed_card: "card (set API_PRIVILEGE_TYPES) = 4"
  by (simp add: API_PRIVILEGE_TYPES_def)

lemma wellFormed_length:
  assumes "distinct xs" and "set xs \<subseteq> set API_PRIVILEGE_TYPES"
  shows "length xs \<le> 4" and "(length xs = 4) = (set API_PRIVILEGE_TYPES \<subseteq> set xs)"
proof -
  have len: "length xs = card (set xs)"
    using assms(1) by (simp add: distinct_card)
  have le: "card (set xs) \<le> card (set API_PRIVILEGE_TYPES)"
    using assms(2) by (simp add: card_mono)
  show "length xs \<le> 4"
    using len le by (simp add: fixed_card)
  show "(length xs = 4) = (set API_PRIVILEGE_TYPES \<subseteq> set xs)"
  proof
    assume "length xs = 4"
    then have "card (set xs) = card (set API_PRIVILEGE_TYPES)"
      using len by (simp add: fixed_card)
    then have "set xs = set API_PRIVILEGE_TYPES"
      using assms(2) by (simp add: card_subset_eq)
    then show "set API_PRIVILEGE_TYPES \<subseteq> set xs" by simp
  next
    assume "set API_PRIVILEGE_TYPES \<subseteq> set xs"
    then have "set xs = set API_PRIVILEGE_TYPES"
      using assms(2) by blast
    then show "length xs = 4"
      using len by (simp add: fixed_card)
  qed
qed

lemma specFullyEmpty_iff: "specFullyEmpty e = (anon e = [] \<and> authenticated e = [])"
  by (simp add: specFullyEmpty_def API_ACCESS_ROLES_def)

lemma specFullySaturated_iff:
  "specFullySaturated e =
     (set API_PRIVILEGE_TYPES \<subseteq> set (anon e) \<and> set API_PRIVILEGE_TYPES \<subseteq> set (authenticated e))"
  by (auto simp: specFullySaturated_def API_ACCESS_ROLES_def list_all_iff)

lemma specWellFormed_iff:
  "specWellFormed e =
     (distinct (anon e) \<and> set (anon e) \<subseteq> set API_PRIVILEGE_TYPES
      \<and> distinct (authenticated e) \<and> set (authenticated e) \<subseteq> set API_PRIVILEGE_TYPES)"
  by (auto simp: specWellFormed_def API_ACCESS_ROLES_def list_all_iff)

text \<open>
  The marker in terms of the two sequence lengths; on a set whose sequences have no
  duplicates and hold only the fixed privilege types it is off exactly at the two
  extremes.
\<close>

lemma hasPartialPrivileges_without_duplicates:
  "hasPartialPrivileges e
     = (0 < length (anon e) + length (authenticated e)
        \<and> length (anon e) + length (authenticated e)
            < length API_ACCESS_ROLES * length API_PRIVILEGE_TYPES)
   \<and> (specWellFormed e \<longrightarrow>
        hasPartialPrivileges e = (\<not> (specFullyEmpty e \<or> specFullySaturated e)))"
proof -
  have count: "hasPartialPrivileges e
     = (0 < length (anon e) + length (authenticated e)
        \<and> length (anon e) + length (authenticated e)
            < length API_ACCESS_ROLES * length API_PRIVILEGE_TYPES)"
    by (simp add: hasPartialPrivileges_def totalSelected_eq totalAvailablePrivileges_def)
  have extremes: "hasPartialPrivileges e = (\<not> (specFullyEmpty e \<or> specFullySaturated e))"
    if wf: "specWellFormed e"
  proof -
    from wf have a: "distinct (anon e)" "set (anon e) \<subseteq> set API_PRIVILEGE_TYPES"
      and b: "distinct (authenticated e)" "set (authenticated e) \<subseteq> set API_PRIVILEGE_TYPES"
      by (simp_all add: specWellFormed_iff)
    note la = wellFormed_length [OF a] and lb = wellFormed_length [OF b]
    have "specFullySaturated e = (length (anon e) = 4 \<and> length (authenticated e) = 4)"
      by (simp add: specFullySaturated_iff la(2) lb(2))
    moreover have "specFullyEmpty e = (length (anon e) = 0 \<and> length (authenticated e) = 0)"
      by (simp add: specFullyEmpty_iff)
    moreover have "hasPartialPrivileges e
        = (0 < length (anon e) + length (authenticated e)
           \<and> length (anon e) + length (authenticated e) < 8)"
      by (simp add: hasPartialPrivileges_def totalSelected_eq totalAvailable_eq)
    ultimately show ?thesis
      using la(1) lb(1) by auto
  qed
  from count extremes show ?thesis by blast
qed

text \<open>
  Duplicates reach the toggle: for a relation on which every privilege type is granted
  to \<^verbatim>\<open>anon\<close> twice (by two grantors), the mapping returns each type twice.
\<close>

lemma duplicate_grants_reach_toggle:
  "privileges (mapPrivilegesToApiAccess
     (Some [\<lparr>relation_id = 1, schema = ''public'', name = ''todos'',
             table_privileges =
               [\<lparr>grantee = ''anon'', privilege_type = ''SELECT''\<rparr>,
                \<lparr>grantee = ''anon'', privilege_type = ''INSERT''\<rparr>,
                \<lparr>grantee = ''anon'', privilege_type = ''UPDATE''\<rparr>,
                \<lparr>grantee = ''anon'', privilege_type = ''DELETE''\<rparr>,
                \<lparr>grantee = ''anon'', privilege_type = ''SELECT''\<rparr>,
                \<lparr>grantee = ''anon'', privilege_type = ''INSERT''\<rparr>,
                \<lparr>grantee = ''anon'', privilege_type = ''UPDATE''\<rparr>,
                \<lparr>grantee = ''anon'', privilege_type = ''DELETE''\<rparr>]\<rparr>])
     (Some 1) None None)
   = \<lparr>anon = [''SELECT'', ''INSERT'', ''UPDATE'', ''DELETE'',
              ''SELECT'', ''INSERT'', ''UPDATE'', ''DELETE''],
      authenticated = []\<rparr>"
  by (simp add: mapPrivilegesToApiAccess_def targetPrivileges_def matchesTarget_def
      rolePrivilegesOf_def API_ACCESS_ROLES_def API_PRIVILEGE_TYPES_def)

text \<open>
  Claim C8. The marker is to be on exactly when the set is neither fully empty nor
  fully saturated. The code counts sequence lengths and removes no duplicates: mounted
  on a relation with every privilege type granted to \<^verbatim>\<open>anon\<close> by two grantors, and
  nothing to \<^verbatim>\<open>authenticated\<close>, the effective set lists each type twice for \<^verbatim>\<open>anon\<close>,
  the total reaches eight, and the marker is off although the set is neither fully
  empty nor fully saturated.
\<close>

theorem hasPartialPrivileges_duplicate_grants:
  "effectivePrivileges
     (mount None
        (Some (privileges (mapPrivilegesToApiAccess
           (Some [\<lparr>relation_id = 1, schema = ''public'', name = ''todos'',
                   table_privileges =
                     [\<lparr>grantee = ''anon'', privilege_type = ''SELECT''\<rparr>,
                      \<lparr>grantee = ''anon'', privilege_type = ''INSERT''\<rparr>,
                      \<lparr>grantee = ''anon'', privilege_type = ''UPDATE''\<rparr>,
                      \<lparr>grantee = ''anon'', privilege_type = ''DELETE''\<rparr>,
                      \<lparr>grantee = ''anon'', privilege_type = ''SELECT''\<rparr>,
                      \<lparr>grantee = ''anon'', privilege_type = ''INSERT''\<rparr>,
                      \<lparr>grantee = ''anon'', privilege_type = ''UPDATE''\<rparr>,
                      \<lparr>grantee = ''anon'', privilege_type = ''DELETE''\<rparr>]\<rparr>])
           (Some 1) None None)))
        True False False)
   = \<lparr>anon = [''SELECT'', ''INSERT'', ''UPDATE'', ''DELETE'',
              ''SELECT'', ''INSERT'', ''UPDATE'', ''DELETE''],
      authenticated = []\<rparr>
   \<and> totalSelectedPrivileges
       \<lparr>anon = [''SELECT'', ''INSERT'', ''UPDATE'', ''DELETE'',
                ''SELECT'', ''INSERT'', ''UPDATE'', ''DELETE''],
        authenticated = []\<rparr> = 8
   \<and> \<not> hasPartialPrivileges
       \<lparr>anon = [''SELECT'', ''INSERT'', ''UPDATE'', ''DELETE'',
                ''SELECT'', ''INSERT'', ''UPDATE'', ''DELETE''],
        authenticated = []\<rparr>
   \<and> \<not> specFullyEmpty
       \<lparr>anon = [''SELECT'', ''INSERT'', ''UPDATE'', ''DELETE'',
                ''SELECT'', ''INSERT'', ''UPDATE'', ''DELETE''],
        authenticated = []\<rparr>
   \<and> \<not> specFullySaturated
       \<lparr>anon = [''SELECT'', ''INSERT'', ''UPDATE'', ''DELETE'',
                ''SELECT'', ''INSERT'', ''UPDATE'', ''DELETE''],
        authenticated = []\<rparr>"
proof -
  let ?e = "\<lparr>anon = [''SELECT'', ''INSERT'', ''UPDATE'', ''DELETE'',
                ''SELECT'', ''INSERT'', ''UPDATE'', ''DELETE''],
        authenticated = []\<rparr>"
  have eff: "effectivePrivileges (mount None (Some ?e) True False False) = ?e"
    by (simp only: mount_def sync_props) (simp add: effectivePrivileges_def derivedPrivileges_def)
  have rest: "totalSelectedPrivileges ?e = 8 \<and> \<not> hasPartialPrivileges ?e
      \<and> \<not> specFullyEmpty ?e \<and> \<not> specFullySaturated ?e"
    by (simp add: hasPartialPrivileges_def totalSelected_eq totalAvailable_eq
      specFullyEmpty_iff specFullySaturated_iff API_PRIVILEGE_TYPES_def)
  from eff rest show ?thesis
    by (simp only: duplicate_grants_reach_toggle) simp
qed


section \<open>Properties of the query mapping\<close>

lemma filter_map_filter:
  "filter P (map f (filter Q xs)) = [f p. p \<leftarrow> xs, Q p, P (f p)]"
  by (induction xs) simp_all

lemma mapPrivileges_role:
  "privilegesOf (privileges (mapPrivilegesToApiAccess data rid sch tn)) role
     = rolePrivilegesOf (targetPrivileges data rid sch tn) role"
  by (cases role) (simp_all add: mapPrivilegesToApiAccess_def Let_def API_ACCESS_ROLES_def)

text \<open>
  Claim C9. For every payload and target the mapping returns, for each role, the
  privilege types of the target's grants whose grantee is that role and whose type is
  one of the fixed four, in order; grants to other grantees and other privilege types
  are dropped, and there is no error case. So every sequence it returns lies within the
  fixed set, and so does the effective set when there is no pending edit and the fetched
  value is what the mapping returned.
\<close>

theorem mapPrivilegesToApiAccess_filters:
  "privilegesOf (privileges (mapPrivilegesToApiAccess data rid sch tn)) role
     = [privilege_type p. p \<leftarrow> targetPrivileges data rid sch tn,
          grantee p = roleName role, privilege_type p \<in> set API_PRIVILEGE_TYPES]
   \<and> set (privilegesOf (privileges (mapPrivilegesToApiAccess data rid sch tn)) role)
        \<subseteq> set API_PRIVILEGE_TYPES
   \<and> (apiPrivileges st = None
        \<and> remotePrivileges st = Some (privileges (mapPrivilegesToApiAccess data rid sch tn))
      \<longrightarrow> set (privilegesOf (effectivePrivileges st) role) \<subseteq> set API_PRIVILEGE_TYPES)"
proof -
  let ?remote = "privileges (mapPrivilegesToApiAccess data rid sch tn)"
  have shape: "privilegesOf ?remote role
     = [privilege_type p. p \<leftarrow> targetPrivileges data rid sch tn,
          grantee p = roleName role, privilege_type p \<in> set API_PRIVILEGE_TYPES]"
    by (simp add: mapPrivileges_role rolePrivilegesOf_def filter_map_filter)
  have sub: "set (privilegesOf ?remote role) \<subseteq> set API_PRIVILEGE_TYPES"
    by (auto simp: mapPrivileges_role rolePrivilegesOf_def)
  have empty: "privilegesOf emptyPrivileges role = []"
    by (cases role) (simp_all add: emptyPrivileges_def)
  have eff: "set (privilegesOf (effectivePrivileges st) role) \<subseteq> set API_PRIVILEGE_TYPES"
    if "apiPrivileges st = None" and "remotePrivileges st = Some ?remote"
    using that sub by (simp add: effectivePrivileges_def derivedPrivileges_def empty)
  from shape sub eff show ?thesis by blast
qed

theorem mapPrivilegesToApiAccess_filters_witness:
  "privileges (mapPrivilegesToApiAccess
     (Some [\<lparr>relation_id = 1, schema = ''public'', name = ''todos'',
             table_privileges =
               [\<lparr>grantee = ''anon'', privilege_type = ''SELECT''\<rparr>,
                \<lparr>grantee = ''anon'', privilege_type = ''TRUNCATE''\<rparr>,
                \<lparr>grantee = ''postgres'', privilege_type = ''INSERT''\<rparr>,
                \<lparr>grantee = ''authenticated'', privilege_type = ''UPDATE''\<rparr>]\<rparr>])
     (Some 1) None None)
   = \<lparr>anon = [''SELECT''], authenticated = [''UPDATE'']\<rparr>
   \<and> set (privilegesOf (effectivePrivileges
        \<lparr>apiPrivileges = None,
         remotePrivileges = Some \<lparr>anon = [''SELECT''], authenticated = [''UPDATE'']\<rparr>,
         isSchemaExposed = True, isNewRecord = False, isDuplicating = False,
         savedPrivileges = None\<rparr>) Anon)
     \<subseteq> set API_PRIVILEGE_TYPES"
proof -
  let ?data = "Some [\<lparr>relation_id = 1, schema = ''public'', name = ''todos'',
             table_privileges =
               [\<lparr>grantee = ''anon'', privilege_type = ''SELECT''\<rparr>,
                \<lparr>grantee = ''anon'', privilege_type = ''TRUNCATE''\<rparr>,
                \<lparr>grantee = ''postgres'', privilege_type = ''INSERT''\<rparr>,
                \<lparr>grantee = ''authenticated'', privilege_type = ''UPDATE''\<rparr>]\<rparr>]"
  let ?st = "\<lparr>apiPrivileges = None,
         remotePrivileges = Some \<lparr>anon = [''SELECT''], authenticated = [''UPDATE'']\<rparr>,
         isSchemaExposed = True, isNewRecord = False, isDuplicating = False,
         savedPrivileges = None\<rparr>"
  have remote: "privileges (mapPrivilegesToApiAccess ?data (Some 1) None None)
      = \<lparr>anon = [''SELECT''], authenticated = [''UPDATE'']\<rparr>"
    by (simp add: mapPrivilegesToApiAccess_def targetPrivileges_def matchesTarget_def
        rolePrivilegesOf_def API_ACCESS_ROLES_def API_PRIVILEGE_TYPES_def)
  have pre: "apiPrivileges ?st = None
      \<and> remotePrivileges ?st = Some (privileges (mapPrivilegesToApiAccess ?data (Some 1) None None))"
    by (simp add: remote)
  from mapPrivilegesToApiAccess_filters [of ?data "Some 1" None None Anon ?st] pre
  have "set (privilegesOf (effectivePrivileges ?st) Anon) \<subseteq> set API_PRIVILEGE_TYPES"
    by blast
  with remote show ?thesis by blast
qed


section \<open>Properties of the privilege-update mutation\<close>

lemma privilegesToRevoke_set:
  "set (privilegesToRevoke ps) = set API_PRIVILEGE_TYPES - set ps"
  by (auto simp: privilegesToRevoke_def)

lemma grantsFor_types [simp]: "map privilegeType (grantsFor role rid ps) = ps"
  by (simp add: grantsFor_def comp_def)

lemma grantsFor_Nil [simp]: "(grantsFor role rid ps = []) = (ps = [])"
  by (simp add: grantsFor_def)

lemma grantsFor_all:
  "list_all (\<lambda>g. granteeRole g = role \<and> relationId g = rid) (grantsFor role rid ps)"
  by (simp add: grantsFor_def list_all_iff)

lemma revoke_or_grant: "privilegesToRevoke ps \<noteq> [] \<or> ps \<noteq> []"
  by (cases ps) (simp_all add: privilegesToRevoke_def API_PRIVILEGE_TYPES_def)

lemma roleCalls_eq:
  "roleCalls privs rid role =
     (if privilegesToRevoke (privilegesOf privs role) \<noteq> []
      then [RevokeCall (grantsFor role rid (privilegesToRevoke (privilegesOf privs role)))]
      else [])
     @ (if privilegesOf privs role \<noteq> []
        then [GrantCall (grantsFor role rid (privilegesOf privs role))] else [])"
  by (simp add: roleCalls_def Let_def)

lemma roleCalls_not_Nil: "roleCalls privs rid role \<noteq> []"
  using revoke_or_grant [of "privilegesOf privs role"]
  by (auto simp: roleCalls_eq)

lemma pgMetaCalls_eq:
  "pgMetaCalls privs rid = roleCalls privs rid Anon @ roleCalls privs rid Authenticated"
  by (simp add: pgMetaCalls_def API_ACCESS_ROLES_def)

lemma sqlStatements_eq:
  "sqlStatements revokeSql grantSql privs rid =
     roleStatements revokeSql grantSql privs rid Anon
     @ roleStatements revokeSql grantSql privs rid Authenticated"
  by (simp add: sqlStatements_def API_ACCESS_ROLES_def)

lemma roleStatements_not_Nil:
  assumes "\<And>gs. gs \<noteq> [] \<Longrightarrow> trim (revokeSql gs) \<noteq> [] \<and> trim (grantSql gs) \<noteq> []"
  shows "roleStatements revokeSql grantSql privs rid role \<noteq> []"
  using revoke_or_grant [of "privilegesOf privs role"] assms
  by (auto simp: roleStatements_def roleCalls_eq)

lemma trim_word: "trim ''REVOKE'' = ''REVOKE''" "trim ''GRANT'' = ''GRANT''"
  by (simp_all add: trim_def isWhiteSpace_def)

text \<open>
  Claim C4, as stated, fails: the mutation does not look at the server-side grants. With
  \<^verbatim>\<open>anon\<close> holding only SELECT on the relation and the desired set equal to what the query
  mapping returns for it, both roles still get their calls to the generator.
\<close>

theorem unchanged_role_still_issued_counterexample:
  "privileges (mapPrivilegesToApiAccess
     (Some [\<lparr>relation_id = 1, schema = ''public'', name = ''todos'',
             table_privileges = [\<lparr>grantee = ''anon'', privilege_type = ''SELECT''\<rparr>]\<rparr>])
     (Some 1) None None)
   = \<lparr>anon = [''SELECT''], authenticated = []\<rparr>
   \<and> roleCalls \<lparr>anon = [''SELECT''], authenticated = []\<rparr> 1 Anon
     = [RevokeCall [\<lparr>granteeRole = Anon, privilegeType = ''INSERT'', relationId = 1\<rparr>,
                    \<lparr>granteeRole = Anon, privilegeType = ''UPDATE'', relationId = 1\<rparr>,
                    \<lparr>granteeRole = Anon, privilegeType = ''DELETE'', relationId = 1\<rparr>],
        GrantCall [\<lparr>granteeRole = Anon, privilegeType = ''SELECT'', relationId = 1\<rparr>]]
   \<and> roleCalls \<lparr>anon = [''SELECT''], authenticated = []\<rparr> 1 Authenticated
     = [RevokeCall [\<lparr>granteeRole = Authenticated, privilegeType = ''SELECT'', relationId = 1\<rparr>,
                    \<lparr>granteeRole = Authenticated, privilegeType = ''INSERT'', relationId = 1\<rparr>,
                    \<lparr>granteeRole = Authenticated, privilegeType = ''UPDATE'', relationId = 1\<rparr>,
                    \<lparr>granteeRole = Authenticated, privilegeType = ''DELETE'', relationId = 1\<rparr>]]"
  by (simp add: mapPrivilegesToApiAccess_def targetPrivileges_def matchesTarget_def
      rolePrivilegesOf_def API_ACCESS_ROLES_def API_PRIVILEGE_TYPES_def
      roleCalls_def privilegesToRevoke_def grantsFor_def)

text \<open>
  Claim C4, amended. For every call and every role, whatever the server-side grants are,
  the generator's \<^verbatim>\<open>revoke\<close> is called with the complement of the desired list exactly
  when the complement is not empty and its \<^verbatim>\<open>grant\<close> with the desired list exactly when
  that is not empty; at least one of the two is called for every role. When the generator
  gives non-blank SQL for every non-empty list of grants, every role contributes a
  statement and the mutation runs SQL.
\<close>

theorem every_role_issued:
  "roleCalls privs rid role \<noteq> []
   \<and> pgMetaCalls privs rid = roleCalls privs rid Anon @ roleCalls privs rid Authenticated
   \<and> list_ex (\<lambda>c. c = RevokeCall (grantsFor role rid (privilegesToRevoke (privilegesOf privs role))))
        (roleCalls privs rid role)
       = (privilegesToRevoke (privilegesOf privs role) \<noteq> [])
   \<and> list_ex (\<lambda>c. c = GrantCall (grantsFor role rid (privilegesOf privs role)))
        (roleCalls privs rid role)
       = (privilegesOf privs role \<noteq> [])
   \<and> ((\<forall>gs. gs \<noteq> [] \<longrightarrow> trim (revokeSql gs) \<noteq> [] \<and> trim (grantSql gs) \<noteq> [])
        \<longrightarrow> roleStatements revokeSql grantSql privs rid role \<noteq> []
            \<and> updateTableApiAccessPrivileges revokeSql grantSql privs rid \<noteq> None)"
proof -
  have stmts: "roleStatements revokeSql grantSql privs rid role \<noteq> []
            \<and> updateTableApiAccessPrivileges revokeSql grantSql privs rid \<noteq> None"
    if h: "\<forall>gs. gs \<noteq> [] \<longrightarrow> trim (revokeSql gs) \<noteq> [] \<and> trim (grantSql gs) \<noteq> []"
  proof -
    from h have h': "\<And>gs. gs \<noteq> [] \<Longrightarrow> trim (revokeSql gs) \<noteq> [] \<and> trim (grantSql gs) \<noteq> []"
      by blast
    have "roleStatements revokeSql grantSql privs rid r \<noteq> []" for r
      by (rule roleStatements_not_Nil) (rule h')
    then show ?thesis
      by (simp add: updateTableApiAccessPrivileges_def Let_def sqlStatements_eq)
  qed
  have rv: "list_ex (\<lambda>c. c = RevokeCall (grantsFor role rid (privilegesToRevoke (privilegesOf privs role))))
        (roleCalls privs rid role)
       = (privilegesToRevoke (privilegesOf privs role) \<noteq> [])"
    by (simp add: roleCalls_eq)
  have gr: "list_ex (\<lambda>c. c = GrantCall (grantsFor role rid (privilegesOf privs role)))
        (roleCalls privs rid role)
       = (privilegesOf privs role \<noteq> [])"
    by (simp add: roleCalls_eq)
  from stmts rv gr roleCalls_not_Nil [of privs rid role] pgMetaCalls_eq [of privs rid]
  show ?thesis by blast
qed

theorem every_role_issued_witness:
  "roleStatements (\<lambda>gs. ''REVOKE'') (\<lambda>gs. ''GRANT'')
      \<lparr>anon = [''SELECT''], authenticated = []\<rparr> 1 Authenticated \<noteq> []
   \<and> updateTableApiAccessPrivileges (\<lambda>gs. ''REVOKE'') (\<lambda>gs. ''GRANT'')
      \<lparr>anon = [''SELECT''], authenticated = []\<rparr> 1 \<noteq> None"
proof -
  have h: "\<forall>gs::TablePrivilegesGrant list. gs \<noteq> [] \<longrightarrow>
      trim ((\<lambda>gs. ''REVOKE'') gs) \<noteq> [] \<and> trim ((\<lambda>gs. ''GRANT'') gs) \<noteq> []"
    by (simp add: trim_word)
  from every_role_issued [of "\<lparr>anon = [''SELECT''], authenticated = []\<rparr>" 1 Authenticated
      "\<lambda>gs. ''REVOKE''" "\<lambda>gs. ''GRANT''"] h
  show ?thesis by blast
qed

text \<open>
  Claim C5. For every call and every role, the privilege types handed to \<^verbatim>\<open>revoke\<close> are
  exactly the fixed privilege types that are not in the desired list, and those handed to
  \<^verbatim>\<open>grant\<close> are exactly the desired list, each grant for that role and that relation;
  \<^verbatim>\<open>revoke\<close> is called exactly when the complement is not empty and \<^verbatim>\<open>grant\<close> exactly
  when the desired list is not empty.
\<close>

theorem revoke_complement_grant_desired:
  "(\<forall>gs. RevokeCall gs \<in> set (roleCalls privs rid role) \<longrightarrow>
        set (map privilegeType gs) = set API_PRIVILEGE_TYPES - set (privilegesOf privs role)
        \<and> list_all (\<lambda>g. granteeRole g = role \<and> relationId g = rid) gs)
   \<and> (\<forall>gs. GrantCall gs \<in> set (roleCalls privs rid role) \<longrightarrow>
        map privilegeType gs = privilegesOf privs role
        \<and> list_all (\<lambda>g. granteeRole g = role \<and> relationId g = rid) gs)
   \<and> ((\<exists>gs. RevokeCall gs \<in> set (roleCalls privs rid role))
        = (set API_PRIVILEGE_TYPES - set (privilegesOf privs role) \<noteq> {}))
   \<and> ((\<exists>gs. GrantCall gs \<in> set (roleCalls privs rid role))
        = (privilegesOf privs role \<noteq> []))
   \<and> pgMetaCalls privs rid = concat (map (roleCalls privs rid) API_ACCESS_ROLES)"
proof -
  have rv: "set (map privilegeType gs) = set API_PRIVILEGE_TYPES - set (privilegesOf privs role)
        \<and> list_all (\<lambda>g. granteeRole g = role \<and> relationId g = rid) gs"
    if "RevokeCall gs \<in> set (roleCalls privs rid role)" for gs
  proof -
    from that have "gs = grantsFor role rid (privilegesToRevoke (privilegesOf privs role))"
      by (simp add: roleCalls_eq split: if_splits)
    then show ?thesis
      by (simp add: privilegesToRevoke_set grantsFor_all)
  qed
  have gr: "map privilegeType gs = privilegesOf privs role
        \<and> list_all (\<lambda>g. granteeRole g = role \<and> relationId g = rid) gs"
    if "GrantCall gs \<in> set (roleCalls privs rid role)" for gs
  proof -
    from that have "gs = grantsFor role rid (privilegesOf privs role)"
      by (simp add: roleCalls_eq split: if_splits)
    then show ?thesis
      by (simp add: grantsFor_all)
  qed
  have rvx: "(\<exists>gs. RevokeCall gs \<in> set (roleCalls privs rid role))
        = (set API_PRIVILEGE_TYPES - set (privilegesOf privs role) \<noteq> {})"
    by (simp add: roleCalls_eq privilegesToRevoke_set [symmetric])
  have grx: "(\<exists>gs. GrantCall gs \<in> set (roleCalls privs rid role))
        = (privilegesOf privs role \<noteq> [])"
    by (simp add: roleCalls_eq)
  have whole: "pgMetaCalls privs rid = concat (map (roleCalls privs rid) API_ACCESS_ROLES)"
    by (simp add: pgMetaCalls_eq API_ACCESS_ROLES_def)
  from rv gr rvx grx whole show ?thesis by blast
qed

theorem revoke_complement_grant_desired_witness:
  "RevokeCall [\<lparr>granteeRole = Anon, privilegeType = ''INSERT'', relationId = 1\<rparr>,
               \<lparr>granteeRole = Anon, privilegeType = ''UPDATE'', relationId = 1\<rparr>,
               \<lparr>granteeRole = Anon, privilegeType = ''DELETE'', relationId = 1\<rparr>]
     \<in> set (roleCalls \<lparr>anon = [''SELECT''], authenticated = []\<rparr> 1 Anon)
   \<and> set (map privilegeType
        [\<lparr>granteeRole = Anon, privilegeType = ''INSERT'', relationId = 1\<rparr>,
         \<lparr>granteeRole = Anon, privilegeType = ''UPDATE'', relationId = 1\<rparr>,
         \<lparr>granteeRole = Anon, privilegeType = ''DELETE'', relationId = 1\<rparr>])
     = set API_PRIVILEGE_TYPES - set (privilegesOf \<lparr>anon = [''SELECT''], authenticated = []\<rparr> Anon)
   \<and> GrantCall [\<lparr>granteeRole = Anon, privilegeType = ''SELECT'', relationId = 1\<rparr>]
     \<in> set (roleCalls \<lparr>anon = [''SELECT''], authenticated = []\<rparr> 1 Anon)
   \<and> map privilegeType [\<lparr>granteeRole = Anon, privilegeType = ''SELECT'', relationId = 1\<rparr>]
     = privilegesOf \<lparr>anon = [''SELECT''], authenticated = []\<rparr> Anon"
proof -
  let ?p = "\<lparr>anon = [''SELECT''], authenticated = []\<rparr>"
  let ?rv = "[\<lparr>granteeRole = Anon, privilegeType = ''INSERT'', relationId = 1\<rparr>,
               \<lparr>granteeRole = Anon, privilegeType = ''UPDATE'', relationId = 1\<rparr>,
               \<lparr>granteeRole = Anon, privilegeType = ''DELETE'', relationId = 1\<rparr>]"
  let ?gr = "[\<lparr>granteeRole = Anon, privilegeType = ''SELECT'', relationId = 1\<rparr>]"
  have calls: "roleCalls ?p 1 Anon = [RevokeCall ?rv, GrantCall ?gr]"
    by (simp add: roleCalls_def privilegesToRevoke_def grantsFor_def API_PRIVILEGE_TYPES_def)
  have rv: "RevokeCall ?rv \<in> set (roleCalls ?p 1 Anon)"
    and gr: "GrantCall ?gr \<in> set (roleCalls ?p 1 Anon)"
    by (simp_all add: calls)
  from revoke_complement_grant_desired [of ?p 1 Anon] rv gr
  show ?thesis by blast
qed


section \<open>Properties of the realtime experiment\<close>

text \<open>
  Claim C10. The active variant is never the control variant: it is a variant exactly
  when running on the platform, in a table, with the flag resolved to that variant and
  the variant not the control one; in every other case it is null.
\<close>

theorem activeVariant_never_control:
  "activeVariant isPlatform isTable flag \<noteq> Some CONTROL
   \<and> (\<forall>v. (activeVariant isPlatform isTable flag = Some v)
           = (isPlatform \<and> isTable \<and> flag = FlagValue v \<and> v \<noteq> CONTROL))
   \<and> ((activeVariant isPlatform isTable flag = None)
           = (\<not> (isPlatform \<and> isTable \<and> (\<exists>v. flag = FlagValue v \<and> v \<noteq> CONTROL))))"
  by (cases flag) (auto simp: activeVariant_def)

end
